theory Spec2Isabelle
  imports Main
begin

section \<open>A CRUD service for users: Elysia handlers over a mongoose model\<close>

text \<open>
  The repository is a bearer-token gate (\<^verbatim>\<open>onBeforeHandle\<close>), four route handlers
  (\<^verbatim>\<open>UserController\<close>), a mongoose schema (\<^verbatim>\<open>UserSchema\<close>) and a start-up
  sequence. The handlers are translated line by line. What they call in mongoose
  (\<^verbatim>\<open>create\<close>, \<^verbatim>\<open>find\<close>, \<^verbatim>\<open>findByIdAndUpdate\<close>, \<^verbatim>\<open>findByIdAndDelete\<close>) is
  library code; it is modelled here over an explicit collection, following the documented
  behaviour of the library: schema validators run on \<^verbatim>\<open>create\<close> only, an identifier that
  is not a 24-digit hexadecimal string fails to cast, \<^verbatim>\<open>create\<close> takes the \<^verbatim>\<open>_id\<close> of the
  object it is given when there is one, keys whose value is \<^verbatim>\<open>undefined\<close> are dropped
  from an update, and \<^verbatim>\<open>_id\<close> is unique in a collection.
  Strings are lists of characters; a JavaScript value that may be \<^verbatim>\<open>undefined\<close> is an
  option.
\<close>

subsection \<open>Documents, errors and the collection\<close>

text \<open>\<^verbatim>\<open>IUser\<close>: the three fields of the interface and the document's \<^verbatim>\<open>_id\<close>. An ObjectId
  is twelve bytes, read here as a natural number.\<close>

record user =
  doc_id :: nat
  name :: string
  email :: string
  password :: string

text \<open>The \<^verbatim>\<open>kind\<close> of the error of one path in a mongoose validation error (a validator
  that failed, or a value that does not cast to the path's type), and the errors a request
  can end in: \<^verbatim>\<open>new Error(msg)\<close> thrown by the gate, the \<^verbatim>\<open>TypeError\<close> of destructuring
  \<^verbatim>\<open>undefined\<close>, a validation error (one entry for each failing path), the cast error of
  a malformed identifier in a query, and the server's error for a second document with
  one \<^verbatim>\<open>_id\<close>.\<close>

datatype kind = Required | Minlength | Maxlength | ObjectIdCast

datatype error =
    Error string
  | TypeError
  | ValidationError "(string \<times> kind) list"
  | CastError string
  | DuplicateKeyError nat

text \<open>The database: the documents of the collection in their natural order, and a counter
  that stands for the driver's generator of ObjectIds. Of the generator only this is kept:
  it never hands out an identifier that is or was in the collection. Which identifiers it
  hands out is not meant (the driver's are built from the time, a random value and a
  counter). A
  collection has no two documents with one \<^verbatim>\<open>_id\<close>, and every identifier in it was handed
  out before; \<open>wf_db\<close> says so. It holds of the empty database and every request keeps
  it (\<open>wf_empty_db\<close>, \<open>wf_serve\<close> below).\<close>

record db =
  docs :: "user list"
  next_oid :: nat

definition empty_db :: db where
  "empty_db = \<lparr>docs = [], next_oid = 0\<rparr>"

definition wf_db :: "db \<Rightarrow> bool" where
  "wf_db d \<longleftrightarrow> distinct (map doc_id (docs d)) \<and> (\<forall>u \<in> set (docs d). doc_id u < next_oid d)"

subsection \<open>The schema (\<^verbatim>\<open>src/models/user-model.ts\<close>)\<close>

record path_opts =
  required :: bool
  minlength :: nat
  maxlength :: nat

definition UserSchema :: "(string \<times> path_opts) list" where
  "UserSchema =
    [(''name'', \<lparr>required = True, minlength = 3, maxlength = 255\<rparr>),
     (''email'', \<lparr>required = True, minlength = 3, maxlength = 255\<rparr>),
     (''password'', \<lparr>required = True, minlength = 3, maxlength = 255\<rparr>)]"

text \<open>The validators of one string path, in mongoose's order: \<^verbatim>\<open>required\<close> first (it
  fails on \<^verbatim>\<open>undefined\<close> and on the empty string), then \<^verbatim>\<open>minlength\<close> and
  \<^verbatim>\<open>maxlength\<close>, which are skipped for a value that is absent. The first failing
  validator gives the path's error.\<close>

definition validate_path :: "path_opts \<Rightarrow> string option \<Rightarrow> kind option" where
  "validate_path opts v =
    (case v of
       None \<Rightarrow> if required opts then Some Required else None
     | Some s \<Rightarrow>
         if required opts \<and> s = [] then Some Required
         else if length s < minlength opts then Some Minlength
         else if maxlength opts < length s then Some Maxlength
         else None)"

definition validate :: "(string \<times> path_opts) list \<Rightarrow> (string \<rightharpoonup> string) \<Rightarrow> (string \<times> kind) list" where
  "validate schema obj =
    List.map_filter (\<lambda>(p, opts). map_option (Pair p) (validate_path opts (obj p))) schema"

subsection \<open>The model's operations\<close>

text \<open>Casting a string to an ObjectId (the \<^verbatim>\<open>:id\<close> path parameter of a query, the
  \<^verbatim>\<open>_id\<close> of a new document): 24 hexadecimal digits, of either case; any other string is
  a cast error, raised before the collection is looked at. (Older versions of the driver also take a string of 12 characters as the twelve
  bytes. Nothing below depends on which strings cast, only on whether the given one
  does.)\<close>

definition hex_digit :: "char \<Rightarrow> nat option" where
  "hex_digit c =
    (let k = (of_char c :: nat) in
     if 48 \<le> k \<and> k \<le> 57 then Some (k - 48)
     else if 97 \<le> k \<and> k \<le> 102 then Some (k - 87)
     else if 65 \<le> k \<and> k \<le> 70 then Some (k - 55)
     else None)"

fun hex_value :: "nat \<Rightarrow> string \<Rightarrow> nat option" where
  "hex_value acc [] = Some acc"
| "hex_value acc (c # cs) =
    (case hex_digit c of None \<Rightarrow> None | Some k \<Rightarrow> hex_value (16 * acc + k) cs)"

definition castObjectId :: "string \<Rightarrow> error + nat" where
  "castObjectId s =
    (if length s = 24 then
       (case hex_value 0 s of None \<Rightarrow> Inl (CastError s) | Some i \<Rightarrow> Inr i)
     else Inl (CastError s))"

text \<open>The \<^verbatim>\<open>_id\<close> an object brings along: none, one that casts, or (\<open>Inl\<close>) a string that
  does not.\<close>

definition supplied_id :: "(string \<rightharpoonup> string) \<Rightarrow> string + nat option" where
  "supplied_id obj =
    (case obj ''_id'' of
       None \<Rightarrow> Inr None
     | Some s \<Rightarrow> (case castObjectId s of Inl _ \<Rightarrow> Inl s | Inr i \<Rightarrow> Inr (Some i)))"

text \<open>\<^verbatim>\<open>user.create(obj)\<close>: build the document from the paths of the schema and \<^verbatim>\<open>_id\<close>
  (the schema is strict: any other key of the object is dropped), validate, then insert.
  The document gets the \<^verbatim>\<open>_id\<close> of the object, or a generated one when the object has
  none. When a path fails, the promise rejects with the validation error and nothing is
  written; when the collection has a document with that \<^verbatim>\<open>_id\<close>, the server refuses the
  insert. All three paths are required, so a list of errors that is empty means that the
  three values are there (\<open>create_cases\<close> below): the last branch is taken with errors
  only.\<close>

definition create :: "db \<Rightarrow> (string \<rightharpoonup> string) \<Rightarrow> (error + user) \<times> db" where
  "create d obj =
    (let errs = validate UserSchema obj in
     case supplied_id obj of
       Inl s \<Rightarrow> (Inl (ValidationError ((''_id'', ObjectIdCast) # errs)), d)
     | Inr given \<Rightarrow>
         (case (errs, obj ''name'', obj ''email'', obj ''password'') of
            ([], Some n, Some e, Some p) \<Rightarrow>
              (let i = (case given of None \<Rightarrow> next_oid d | Some j \<Rightarrow> j);
                   u = \<lparr>doc_id = i, name = n, email = e, password = p\<rparr>
               in if i \<in> doc_id ` set (docs d) then (Inl (DuplicateKeyError i), d)
                  else (Inr u, d\<lparr>docs := docs d @ [u], next_oid := max (next_oid d) (Suc i)\<rparr>))
          | _ \<Rightarrow> (Inl (ValidationError errs), d)))"

text \<open>\<^verbatim>\<open>user.find()\<close>: the whole collection.\<close>

definition find_all :: "db \<Rightarrow> user list" where
  "find_all d = docs d"

text \<open>The \<^verbatim>\<open>$set\<close> of an update with the keys \<^verbatim>\<open>name\<close>, \<^verbatim>\<open>email\<close>, \<^verbatim>\<open>password\<close> (the
  handler passes no other): a key whose value is \<^verbatim>\<open>undefined\<close> is dropped, so the field
  keeps its value. Update validators are off unless asked for, and the handler does not
  ask.\<close>

definition apply_update :: "(string \<rightharpoonup> string) \<Rightarrow> user \<Rightarrow> user" where
  "apply_update upd u =
    u\<lparr>name := (case upd ''name'' of None \<Rightarrow> name u | Some v \<Rightarrow> v),
      email := (case upd ''email'' of None \<Rightarrow> email u | Some v \<Rightarrow> v),
      password := (case upd ''password'' of None \<Rightarrow> password u | Some v \<Rightarrow> v)\<rparr>"

fun update_by_id :: "nat \<Rightarrow> (user \<Rightarrow> user) \<Rightarrow> user list \<Rightarrow> user list" where
  "update_by_id i f [] = []"
| "update_by_id i f (u # us) = (if doc_id u = i then f u # us else u # update_by_id i f us)"

fun delete_by_id :: "nat \<Rightarrow> user list \<Rightarrow> user list" where
  "delete_by_id i [] = []"
| "delete_by_id i (u # us) = (if doc_id u = i then us else u # delete_by_id i us)"

text \<open>\<^verbatim>\<open>user.findByIdAndUpdate(id, upd, { new: true })\<close>: the document after the update, or
  \<^verbatim>\<open>null\<close> when no document has the identifier (there is no upsert).\<close>

definition findByIdAndUpdate ::
    "db \<Rightarrow> string \<Rightarrow> (string \<rightharpoonup> string) \<Rightarrow> (error + user option) \<times> db" where
  "findByIdAndUpdate d idp upd =
    (case castObjectId idp of
       Inl e \<Rightarrow> (Inl e, d)
     | Inr i \<Rightarrow>
         (case List.find (\<lambda>u. doc_id u = i) (docs d) of
            None \<Rightarrow> (Inr None, d)
          | Some u \<Rightarrow>
              (Inr (Some (apply_update upd u)),
               d\<lparr>docs := update_by_id i (apply_update upd) (docs d)\<rparr>)))"

text \<open>\<^verbatim>\<open>user.findByIdAndDelete(id, { new: true })\<close>: the removed document or \<^verbatim>\<open>null\<close>.\<close>

definition findByIdAndDelete :: "db \<Rightarrow> string \<Rightarrow> (error + user option) \<times> db" where
  "findByIdAndDelete d idp =
    (case castObjectId idp of
       Inl e \<Rightarrow> (Inl e, d)
     | Inr i \<Rightarrow>
         (case List.find (\<lambda>u. doc_id u = i) (docs d) of
            None \<Rightarrow> (Inr None, d)
          | Some u \<Rightarrow> (Inr (Some u), d\<lparr>docs := delete_by_id i (docs d)\<rparr>)))"

subsection \<open>Requests and the handlers of \<^verbatim>\<open>UserController\<close>\<close>

text \<open>A request that matched one of the four registered routes: the token the bearer
  plugin extracted, the route with its \<^verbatim>\<open>:id\<close> parameter, and \<^verbatim>\<open>context.body\<close>. The
  body is \<open>None\<close> when the request has none (\<^verbatim>\<open>undefined\<close>; a body that is the JSON
  \<^verbatim>\<open>null\<close> destructures in the same way); otherwise it is the parsed
  JSON object, with string-valued properties, any of \<^verbatim>\<open>name\<close>, \<^verbatim>\<open>email\<close>,
  \<^verbatim>\<open>password\<close> possibly missing and others possibly there: the cast
  \<^verbatim>\<open>context.body as TUser\<close> checks nothing.\<close>

datatype route = POST_user | GET_user | PUT_user string | DELETE_user string

record request =
  bearer :: "string option"
  route :: route
  body :: "(string \<rightharpoonup> string) option"

datatype response = Doc user | Docs "user list" | Null | Text string

type_synonym outcome = "(error + response) \<times> db"

text \<open>\<^verbatim>\<open>const { name, email, password } = context.body\<close> throws a \<^verbatim>\<open>TypeError\<close> when the
  body is \<^verbatim>\<open>undefined\<close>, before anything else is done. Otherwise the object literal
  \<^verbatim>\<open>{ name, email, password }\<close> that follows is the body restricted to the three keys,
  and this is all that the model's operations get to see of a body.\<close>

definition user_fields :: "(string \<rightharpoonup> string) \<Rightarrow> (string \<rightharpoonup> string)" where
  "user_fields b = b |` {''name'', ''email'', ''password''}"

definition post_user :: "db \<Rightarrow> (string \<rightharpoonup> string) option \<Rightarrow> outcome" where
  "post_user d context_body =
    (case context_body of
       None \<Rightarrow> (Inl TypeError, d)
     | Some b \<Rightarrow>
         (case create d (user_fields b) of
            (Inl e, d') \<Rightarrow> (Inl e, d')
          | (Inr newUser, d') \<Rightarrow> (Inr (Doc newUser), d')))"

definition get_user :: "db \<Rightarrow> outcome" where
  "get_user d = (Inr (Docs (find_all d)), d)"

definition put_user :: "db \<Rightarrow> string \<Rightarrow> (string \<rightharpoonup> string) option \<Rightarrow> outcome" where
  "put_user d idp context_body =
    (case context_body of
       None \<Rightarrow> (Inl TypeError, d)
     | Some b \<Rightarrow>
         (case findByIdAndUpdate d idp (user_fields b) of
            (Inl e, d') \<Rightarrow> (Inl e, d')
          | (Inr None, d') \<Rightarrow> (Inr Null, d')
          | (Inr (Some updatedUser), d') \<Rightarrow> (Inr (Doc updatedUser), d')))"

definition delete_user :: "db \<Rightarrow> string \<Rightarrow> outcome" where
  "delete_user d idp =
    (case findByIdAndDelete d idp of
       (Inl e, d') \<Rightarrow> (Inl e, d')
     | (Inr _, d') \<Rightarrow> (Inr (Text ''User deleted''), d'))"

definition UserController :: "db \<Rightarrow> request \<Rightarrow> outcome" where
  "UserController d req =
    (case route req of
       POST_user \<Rightarrow> post_user d (body req)
     | GET_user \<Rightarrow> get_user d
     | PUT_user idp \<Rightarrow> put_user d idp (body req)
     | DELETE_user idp \<Rightarrow> delete_user d idp)"

subsection \<open>The gate and the application\<close>

text \<open>JavaScript's falsy test on a value that is a string or \<^verbatim>\<open>undefined\<close>.\<close>

definition falsy :: "string option \<Rightarrow> bool" where
  "falsy v \<longleftrightarrow> v = None \<or> v = Some []"

definition onBeforeHandle :: "string option \<Rightarrow> error + unit" where
  "onBeforeHandle tok =
    (if falsy tok then Inl (Error ''Unauthorized'')
     else
       (let isAuthorized = (tok = Some ''12345678'') in
        if \<not> isAuthorized then Inl (Error ''Unauthorized'') else Inr ()))"

text \<open>The life cycle of a matched request: the hook registered with
  \<^verbatim>\<open>onBeforeHandle\<close> runs first, on the token the bearer plugin extracted, and a hook that
  throws ends the request with its error; otherwise the route's handler runs. The
  application is this life cycle with the gate as the hook and \<^verbatim>\<open>UserController\<close> behind
  it.\<close>

definition lifecycle ::
    "(string option \<Rightarrow> error + unit) \<Rightarrow> (db \<Rightarrow> request \<Rightarrow> outcome) \<Rightarrow> db \<Rightarrow> request \<Rightarrow> outcome" where
  "lifecycle hook handler d req =
    (case hook (bearer req) of
       Inl e \<Rightarrow> (Inl e, d)
     | Inr _ \<Rightarrow> handler d req)"

definition handle :: "db \<Rightarrow> request \<Rightarrow> outcome" where
  "handle = lifecycle onBeforeHandle UserController"

subsection \<open>A run of requests\<close>

text \<open>Requests are served one after the other, each on the database the one before it
  left.\<close>

fun serve :: "db \<Rightarrow> request list \<Rightarrow> (error + response) list \<times> db" where
  "serve d [] = ([], d)"
| "serve d (r # rs) =
    (case handle d r of
       (out, d') \<Rightarrow> (case serve d' rs of (outs, d'') \<Rightarrow> (out # outs, d'')))"

definition is_delete :: "request \<Rightarrow> bool" where
  "is_delete r = (case route r of DELETE_user _ \<Rightarrow> True | _ \<Rightarrow> False)"

text \<open>The creates of a run that succeeded: the requests to \<^verbatim>\<open>POST /user\<close> that were
  answered with a document.\<close>

definition created :: "request \<times> (error + response) \<Rightarrow> bool" where
  "created x = (case x of (r, out) \<Rightarrow> route r = POST_user \<and> \<not> isl out)"

definition successful_creates :: "request list \<Rightarrow> (error + response) list \<Rightarrow> nat" where
  "successful_creates rs outs = length (filter created (zip rs outs))"

text \<open>What a handler reads as a field of the body: \<^verbatim>\<open>undefined\<close> when the body has no such
  field, and when there is no body.\<close>

definition body_field :: "request \<Rightarrow> string \<Rightarrow> string option" where
  "body_field r k = (case body r of None \<Rightarrow> None | Some b \<Rightarrow> b k)"



subsection \<open>Start-up (\<^verbatim>\<open>index.ts\<close>)\<close>

text \<open>\<^verbatim>\<open>process.env.PORT || 4001\<close>: a string from the environment, or the number 4001 when
  the variable is falsy (unset, or set to the empty string).\<close>

datatype port = PortNumber nat | PortString string

definition PORT :: "(string \<rightharpoonup> string) \<Rightarrow> port" where
  "PORT env =
    (case env ''PORT'' of
       None \<Rightarrow> PortNumber 4001
     | Some s \<Rightarrow> if s = [] then PortNumber 4001 else PortString s)"

fun decimal :: "nat \<Rightarrow> string" where
  "decimal n =
    (if n < 10 then [char_of (48 + n)]
     else decimal (n div 10) @ [char_of (48 + n mod 10)])"

declare decimal.simps [simp del]

definition port_text :: "port \<Rightarrow> string" where
  "port_text p = (case p of PortNumber n \<Rightarrow> decimal n | PortString s \<Rightarrow> s)"

text \<open>What the process does at start-up, as the sequence of its visible actions. The state
  in which the promise of \<^verbatim>\<open>mongoose.connect\<close> ends is given, and so is the outcome of
  \<^verbatim>\<open>app.listen\<close> (\<open>Inl err\<close> when it throws). The \<^verbatim>\<open>then\<close> callback runs only when
  the connection is made; the \<^verbatim>\<open>catch\<close> callback logs a rejected connection and
  whatever the \<^verbatim>\<open>then\<close> callback throws.\<close>

datatype 'a promise = Pending | Rejected string | Fulfilled 'a

datatype event = Log string | Listen port

definition bootstrap :: "(string \<rightharpoonup> string) \<Rightarrow> unit promise \<Rightarrow> string + unit \<Rightarrow> event list" where
  "bootstrap env connect listen =
    (case connect of
       Pending \<Rightarrow> []
     | Rejected err \<Rightarrow> [Log err]
     | Fulfilled _ \<Rightarrow>
         Log ''Connected to MongoDB'' #
         (case listen of
            Inl err \<Rightarrow> [Log err]
          | Inr _ \<Rightarrow>
              [Listen (PORT env),
               Log (''Server is up and running on port '' @ port_text (PORT env))]))"

section \<open>Facts about the model\<close>

subsection \<open>Validation and \<^verbatim>\<open>create\<close>\<close>

lemma validate_path_user:
  "validate_path \<lparr>required = True, minlength = 3, maxlength = 255\<rparr> v = None \<longleftrightarrow>
     (\<exists>s. v = Some s \<and> 3 \<le> length s \<and> length s \<le> 255)"
  by (auto simp: validate_path_def split: option.splits)

lemma validate_UserSchema_Nil:
  "validate UserSchema obj = [] \<longleftrightarrow>
     (\<exists>n e p. obj ''name'' = Some n \<and> obj ''email'' = Some e \<and> obj ''password'' = Some p \<and>
        3 \<le> length n \<and> length n \<le> 255 \<and> 3 \<le> length e \<and> length e \<le> 255 \<and>
        3 \<le> length p \<and> length p \<le> 255)"
proof -
  have "validate UserSchema obj = [] \<longleftrightarrow>
      validate_path \<lparr>required = True, minlength = 3, maxlength = 255\<rparr> (obj ''name'') = None \<and>
      validate_path \<lparr>required = True, minlength = 3, maxlength = 255\<rparr> (obj ''email'') = None \<and>
      validate_path \<lparr>required = True, minlength = 3, maxlength = 255\<rparr> (obj ''password'') = None"
    by (simp add: validate_def UserSchema_def split: option.splits)
  then show ?thesis
    unfolding validate_path_user by blast
qed

lemma validate_UserSchema_eq:
  "validate UserSchema obj =
     (case validate_path \<lparr>required = True, minlength = 3, maxlength = 255\<rparr> (obj ''name'') of
        None \<Rightarrow> [] | Some k \<Rightarrow> [(''name'', k)]) @
     (case validate_path \<lparr>required = True, minlength = 3, maxlength = 255\<rparr> (obj ''email'') of
        None \<Rightarrow> [] | Some k \<Rightarrow> [(''email'', k)]) @
     (case validate_path \<lparr>required = True, minlength = 3, maxlength = 255\<rparr> (obj ''password'') of
        None \<Rightarrow> [] | Some k \<Rightarrow> [(''password'', k)])"
  by (simp add: validate_def UserSchema_def split: option.splits)

lemma validate_UserSchema_paths:
  assumes "p = ''name'' \<or> p = ''email'' \<or> p = ''password''"
    and "validate_path \<lparr>required = True, minlength = 3, maxlength = 255\<rparr> (obj p) = Some k"
  shows "(p, k) \<in> set (validate UserSchema obj)"
proof -
  from assms(1) show ?thesis
  proof (elim disjE)
    assume "p = ''name''"
    with assms(2) show ?thesis by (simp add: validate_UserSchema_eq)
  next
    assume "p = ''email''"
    with assms(2) show ?thesis by (simp add: validate_UserSchema_eq)
  next
    assume "p = ''password''"
    with assms(2) show ?thesis by (simp add: validate_UserSchema_eq)
  qed
qed

lemma user_fields_simps [simp]:
  "user_fields b ''name'' = b ''name''" "user_fields b ''email'' = b ''email''" "user_fields b ''password'' = b ''password''"
  by (simp_all add: user_fields_def)

lemma validate_user_fields: "validate UserSchema (user_fields b) = validate UserSchema b"
  by (simp add: validate_def UserSchema_def cong: option.case_cong)

lemma supplied_id_user_fields [simp]: "supplied_id (user_fields b) = Inr None"
  by (simp add: supplied_id_def user_fields_def)

lemma create_valid:
  assumes "supplied_id obj = Inr None"
    and "next_oid d \<notin> doc_id ` set (docs d)"
    and "obj ''name'' = Some n" "obj ''email'' = Some e" "obj ''password'' = Some p"
    and "3 \<le> length n" "length n \<le> 255" "3 \<le> length e" "length e \<le> 255"
        "3 \<le> length p" "length p \<le> 255"
  shows "create d obj =
    (Inr \<lparr>doc_id = next_oid d, name = n, email = e, password = p\<rparr>,
     d\<lparr>docs := docs d @ [\<lparr>doc_id = next_oid d, name = n, email = e, password = p\<rparr>],
       next_oid := Suc (next_oid d)\<rparr>)"
proof -
  have "validate UserSchema obj = []"
    using assms(3-11) by (simp add: validate_UserSchema_Nil)
  then show ?thesis
    using assms(1-5) by (simp add: create_def Let_def)
qed

lemma create_invalid:
  assumes "supplied_id obj = Inr None" and "validate UserSchema obj \<noteq> []"
  shows "create d obj = (Inl (ValidationError (validate UserSchema obj)), d)"
  using assms by (simp add: create_def Let_def split: list.splits)


text \<open>What every call of \<^verbatim>\<open>create\<close> does to the collection, whatever the object: an error
  leaves the database as it was, and a document is appended under an identifier that was
  not in the collection.\<close>

lemma create_Inl: "create d obj = (Inl e, d') \<Longrightarrow> d' = d"
  by (auto simp: create_def Let_def split: sum.splits list.splits option.splits if_splits)

lemma create_Inr:
  "create d obj = (Inr u, d') \<Longrightarrow>
     doc_id u \<notin> doc_id ` set (docs d) \<and> docs d' = docs d @ [u] \<and>
     next_oid d' = max (next_oid d) (Suc (doc_id u))"
  by (auto simp: create_def Let_def split: sum.splits list.splits option.splits if_splits)

text \<open>Given the whole body, \<^verbatim>\<open>create\<close> would take its \<^verbatim>\<open>_id\<close>: that a create request
  cannot choose the identifier is the doing of the handler, which passes three fields.\<close>

lemma create_takes_supplied_id:
  "create empty_db
     [''name'' \<mapsto> ''Ann'', ''email'' \<mapsto> ''ann@x.com'', ''password'' \<mapsto> ''secret'',
      ''_id'' \<mapsto> ''000000000000000000000007'']
   = (Inr \<lparr>doc_id = 7, name = ''Ann'', email = ''ann@x.com'', password = ''secret''\<rparr>,
      \<lparr>docs = [\<lparr>doc_id = 7, name = ''Ann'', email = ''ann@x.com'', password = ''secret''\<rparr>],
         next_oid = 8\<rparr>)"
  by (simp add: create_def supplied_id_def castObjectId_def hex_digit_def validate_def
      UserSchema_def validate_path_def empty_db_def Let_def)

subsection \<open>Collections with unique identifiers\<close>

lemma find_by_id_None: "List.find (\<lambda>u. doc_id u = i) us = None \<longleftrightarrow> i \<notin> doc_id ` set us"
  by (induction us) auto

lemma find_by_id_distinct:
  "distinct (map doc_id us) \<Longrightarrow> u \<in> set us \<Longrightarrow> List.find (\<lambda>x. doc_id x = doc_id u) us = Some u"
  by (induction us) auto

lemma filter_other_ids: "i \<notin> doc_id ` set us \<Longrightarrow> filter (\<lambda>u. doc_id u \<noteq> i) us = us"
  by (induction us) auto

lemma map_other_ids: "i \<notin> doc_id ` set us \<Longrightarrow> map (\<lambda>u. if doc_id u = i then f u else u) us = us"
  by (induction us) auto

lemma delete_by_id_filter:
  "distinct (map doc_id us) \<Longrightarrow> delete_by_id i us = filter (\<lambda>u. doc_id u \<noteq> i) us"
  by (induction us) (auto simp: filter_other_ids)

lemma update_by_id_map:
  "distinct (map doc_id us) \<Longrightarrow>
     update_by_id i f us = map (\<lambda>u. if doc_id u = i then f u else u) us"
  by (induction us) (auto simp: map_other_ids)

lemma length_update_by_id: "length (update_by_id i f us) = length us"
  by (induction us) auto

lemma ids_update_by_id:
  "(\<And>u. doc_id (f u) = doc_id u) \<Longrightarrow> map doc_id (update_by_id i f us) = map doc_id us"
  by (induction us) auto

lemma doc_id_apply_update: "doc_id (apply_update upd u) = doc_id u"
  by (simp add: apply_update_def)

lemma wf_empty_db: "wf_db empty_db"
  by (simp add: wf_db_def empty_db_def)

lemma wf_create: "wf_db d \<Longrightarrow> wf_db (snd (create d obj))"
proof (cases "create d obj")
  case (Pair r d')
  assume wf: "wf_db d"
  show ?thesis
  proof (cases r)
    case (Inl e)
    with Pair have "d' = d" by (simp add: create_Inl)
    with wf Pair show ?thesis by simp
  next
    case (Inr u)
    with Pair have "doc_id u \<notin> doc_id ` set (docs d)" and "docs d' = docs d @ [u]"
      and "next_oid d' = max (next_oid d) (Suc (doc_id u))"
      using create_Inr [of d obj u d'] by simp_all
    with wf have "wf_db d'" by (fastforce simp: wf_db_def)
    with Pair show ?thesis by simp
  qed
qed

lemma wf_findByIdAndUpdate: "wf_db d \<Longrightarrow> wf_db (snd (findByIdAndUpdate d idp upd))"
proof -
  assume wf: "wf_db d"
  have ids: "map doc_id (update_by_id i (apply_update upd) (docs d)) = map doc_id (docs d)" for i
    by (rule ids_update_by_id) (rule doc_id_apply_update)
  have "wf_db (d\<lparr>docs := update_by_id i (apply_update upd) (docs d)\<rparr>)" for i
  proof -
    have "doc_id ` set (update_by_id i (apply_update upd) (docs d)) = doc_id ` set (docs d)"
      using ids [of i] by (metis set_map)
    moreover have "\<forall>k \<in> doc_id ` set (docs d). k < next_oid d"
      using wf by (simp add: wf_db_def)
    ultimately have "\<forall>k \<in> doc_id ` set (update_by_id i (apply_update upd) (docs d)). k < next_oid d"
      by simp
    then show ?thesis
      using wf ids [of i] by (simp add: wf_db_def)
  qed
  with wf show ?thesis
    by (simp add: findByIdAndUpdate_def split: sum.splits option.splits)
qed

lemma wf_findByIdAndDelete: "wf_db d \<Longrightarrow> wf_db (snd (findByIdAndDelete d idp))"
proof -
  assume wf: "wf_db d"
  have "wf_db (d\<lparr>docs := delete_by_id i (docs d)\<rparr>)" for i
    using wf by (auto simp: wf_db_def delete_by_id_filter distinct_map_filter)
  with wf show ?thesis
    by (simp add: findByIdAndDelete_def split: sum.splits option.splits)
qed

lemma wf_UserController: "wf_db d \<Longrightarrow> wf_db (snd (UserController d req))"
proof (cases "route req")
  case POST_user
  assume wf: "wf_db d"
  show ?thesis
  proof (cases "body req")
    case None
    with POST_user wf show ?thesis by (simp add: UserController_def post_user_def)
  next
    case (Some b)
    from wf have "wf_db (snd (create d (user_fields b)))" by (rule wf_create)
    with POST_user Some show ?thesis
      by (cases "create d (user_fields b)") (simp add: UserController_def post_user_def split: sum.splits)
  qed
next
  case GET_user
  assume "wf_db d"
  with GET_user show ?thesis by (simp add: UserController_def get_user_def)
next
  case (PUT_user idp)
  assume wf: "wf_db d"
  show ?thesis
  proof (cases "body req")
    case None
    with PUT_user wf show ?thesis by (simp add: UserController_def put_user_def)
  next
    case (Some b)
    from wf have "wf_db (snd (findByIdAndUpdate d idp (user_fields b)))" by (rule wf_findByIdAndUpdate)
    with PUT_user Some show ?thesis
      by (cases "findByIdAndUpdate d idp (user_fields b)")
        (simp add: UserController_def put_user_def split: sum.splits option.splits)
  qed
next
  case (DELETE_user idp)
  assume "wf_db d"
  then have "wf_db (snd (findByIdAndDelete d idp))" by (rule wf_findByIdAndDelete)
  with DELETE_user show ?thesis
    by (cases "findByIdAndDelete d idp") (simp add: UserController_def delete_user_def split: sum.splits)
qed

lemma wf_handle: "wf_db d \<Longrightarrow> wf_db (snd (handle d req))"
  using wf_UserController [of d req]
  by (simp add: handle_def lifecycle_def split: sum.splits)

lemma wf_serve: "wf_db d \<Longrightarrow> wf_db (snd (serve d rs))"
proof (induction rs arbitrary: d)
  case Nil
  then show ?case by simp
next
  case (Cons r rs)
  from Cons.prems have "wf_db (snd (handle d r))" by (rule wf_handle)
  then have "wf_db (snd (serve (snd (handle d r)) rs))" by (rule Cons.IH)
  then show ?case
    by (cases "handle d r"; cases "serve (snd (handle d r)) rs") simp
qed

subsection \<open>The gate and the handlers behind it\<close>

lemma onBeforeHandle_iff: "onBeforeHandle tok = Inr () \<longleftrightarrow> tok = Some ''12345678''"
  by (auto simp: onBeforeHandle_def falsy_def)

lemma onBeforeHandle_reject: "tok \<noteq> Some ''12345678'' \<Longrightarrow> onBeforeHandle tok = Inl (Error ''Unauthorized'')"
  by (auto simp: onBeforeHandle_def falsy_def)

lemma handle_authorized:
  "bearer req = Some ''12345678'' \<Longrightarrow> handle d req = UserController d req"
  by (simp add: handle_def lifecycle_def onBeforeHandle_def falsy_def)

lemma handle_POST:
  "bearer req = Some ''12345678'' \<Longrightarrow> route req = POST_user \<Longrightarrow>
     handle d req = post_user d (body req)"
  by (simp add: handle_authorized UserController_def)

lemma handle_GET:
  "bearer req = Some ''12345678'' \<Longrightarrow> route req = GET_user \<Longrightarrow>
     handle d req = (Inr (Docs (docs d)), d)"
  by (simp add: handle_authorized UserController_def get_user_def find_all_def)

lemma handle_PUT:
  "bearer req = Some ''12345678'' \<Longrightarrow> route req = PUT_user idp \<Longrightarrow>
     handle d req = put_user d idp (body req)"
  by (simp add: handle_authorized UserController_def)

lemma handle_DELETE:
  "bearer req = Some ''12345678'' \<Longrightarrow> route req = DELETE_user idp \<Longrightarrow>
     handle d req = delete_user d idp"
  by (simp add: handle_authorized UserController_def)

lemma next_oid_fresh: "wf_db d \<Longrightarrow> next_oid d \<notin> doc_id ` set (docs d)"
  by (auto simp: wf_db_def)

lemma post_user_no_body: "post_user d None = (Inl TypeError, d)"
  by (simp add: post_user_def)

lemma put_user_no_body: "put_user d idp None = (Inl TypeError, d)"
  by (simp add: put_user_def)

lemma post_user_valid:
  assumes "wf_db d"
    and "b ''name'' = Some n" "b ''email'' = Some e" "b ''password'' = Some p"
    and "3 \<le> length n" "length n \<le> 255" "3 \<le> length e" "length e \<le> 255"
        "3 \<le> length p" "length p \<le> 255"
  shows "post_user d (Some b) =
    (Inr (Doc \<lparr>doc_id = next_oid d, name = n, email = e, password = p\<rparr>),
     d\<lparr>docs := docs d @ [\<lparr>doc_id = next_oid d, name = n, email = e, password = p\<rparr>],
       next_oid := Suc (next_oid d)\<rparr>)"
proof -
  have "create d (user_fields b) =
    (Inr \<lparr>doc_id = next_oid d, name = n, email = e, password = p\<rparr>,
     d\<lparr>docs := docs d @ [\<lparr>doc_id = next_oid d, name = n, email = e, password = p\<rparr>],
       next_oid := Suc (next_oid d)\<rparr>)"
    using assms(2-10) next_oid_fresh [OF assms(1)] by (intro create_valid) simp_all
  then show ?thesis by (simp add: post_user_def)
qed

lemma post_user_invalid:
  assumes "validate UserSchema b \<noteq> []"
  shows "post_user d (Some b) = (Inl (ValidationError (validate UserSchema b)), d)"
proof -
  from assms have "validate UserSchema (user_fields b) \<noteq> []" by (simp add: validate_user_fields)
  then have "create d (user_fields b) = (Inl (ValidationError (validate UserSchema (user_fields b))), d)"
    by (intro create_invalid) simp_all
  then show ?thesis by (simp add: post_user_def validate_user_fields)
qed

subsection \<open>The size of the collection along a run\<close>

lemma length_docs_create:
  "create d obj = (r, d') \<Longrightarrow> length (docs d') = length (docs d) + (if isl r then 0 else 1)"
  by (cases r) (auto dest: create_Inl create_Inr)

lemma length_docs_findByIdAndUpdate:
  "length (docs (snd (findByIdAndUpdate d idp upd))) = length (docs d)"
  by (simp add: findByIdAndUpdate_def length_update_by_id split: sum.splits option.splits)

lemma length_docs_UserController:
  assumes "\<not> is_delete req" and "UserController d req = (out, d')"
  shows "length (docs d') = length (docs d) + (if created (req, out) then 1 else 0)"
proof (cases "route req")
  case POST_user
  show ?thesis
  proof (cases "body req")
    case None
    with POST_user assms(2) show ?thesis
      by (auto simp: UserController_def post_user_def created_def)
  next
    case (Some b)
    obtain r d1 where c: "create d (user_fields b) = (r, d1)"
      by (cases "create d (user_fields b)")
    with POST_user Some assms(2) have "d' = d1" and "isl out = isl r"
      by (auto simp: UserController_def post_user_def split: sum.splits)
    with length_docs_create [OF c] POST_user show ?thesis
      by (simp add: created_def)
  qed
next
  case GET_user
  with assms(2) show ?thesis
    by (auto simp: UserController_def get_user_def created_def)
next
  case (PUT_user idp)
  show ?thesis
  proof (cases "body req")
    case None
    with PUT_user assms(2) show ?thesis
      by (auto simp: UserController_def put_user_def created_def)
  next
    case (Some b)
    with PUT_user assms(2) have "d' = snd (findByIdAndUpdate d idp (user_fields b))"
      by (cases "findByIdAndUpdate d idp (user_fields b)")
        (auto simp: UserController_def put_user_def split: sum.splits option.splits)
    with PUT_user show ?thesis
      by (simp add: length_docs_findByIdAndUpdate created_def)
  qed
next
  case (DELETE_user idp)
  with assms(1) show ?thesis by (simp add: is_delete_def)
qed

lemma length_docs_handle:
  assumes "\<not> is_delete req" and "handle d req = (out, d')"
  shows "length (docs d') = length (docs d) + (if created (req, out) then 1 else 0)"
proof (cases "onBeforeHandle (bearer req)")
  case (Inl e)
  with assms(2) show ?thesis
    by (auto simp: handle_def lifecycle_def created_def)
next
  case (Inr x)
  with assms(2) have "UserController d req = (out, d')"
    by (simp add: handle_def lifecycle_def)
  with assms(1) show ?thesis by (rule length_docs_UserController)
qed

lemma length_docs_serve:
  "\<forall>r \<in> set rs. \<not> is_delete r \<Longrightarrow> serve d rs = (outs, d') \<Longrightarrow>
     length (docs d') = length (docs d) + successful_creates rs outs"
proof (induction rs arbitrary: d outs d')
  case Nil
  then show ?case by (simp add: successful_creates_def)
next
  case (Cons r rs)
  obtain out d1 where h: "handle d r = (out, d1)" by (cases "handle d r")
  obtain outs1 d2 where s: "serve d1 rs = (outs1, d2)" by (cases "serve d1 rs")
  from Cons.prems(2) h s have eq: "outs = out # outs1" "d' = d2" by simp_all
  from Cons.prems(1) have nd: "\<not> is_delete r" and rest: "\<forall>r \<in> set rs. \<not> is_delete r"
    by simp_all
  have "length (docs d1) = length (docs d) + (if created (r, out) then 1 else 0)"
    using nd h by (rule length_docs_handle)
  moreover have "length (docs d2) = length (docs d1) + successful_creates rs outs1"
    using rest s by (rule Cons.IH)
  ultimately show ?case
    using eq by (simp add: successful_creates_def)
qed

subsection \<open>Update and delete on a collection with unique identifiers\<close>

lemma map_update_unique:
  assumes "distinct (map doc_id us)" and "u \<in> set us"
  shows "map (\<lambda>x. if doc_id x = doc_id u then f x else x) us =
         map (\<lambda>x. if doc_id x = doc_id u then f u else x) us"
proof -
  from assms(1) have "inj_on doc_id (set us)" by (simp add: distinct_map)
  with assms(2) have "x = u" if "x \<in> set us" "doc_id x = doc_id u" for x
    using that by (auto dest: inj_onD)
  then show ?thesis by auto
qed

lemma length_filter_other_ids:
  "distinct (map doc_id us) \<Longrightarrow> i \<in> doc_id ` set us \<Longrightarrow>
     Suc (length (filter (\<lambda>u. doc_id u \<noteq> i) us)) = length us"
proof (induction us)
  case Nil
  then show ?case by simp
next
  case (Cons u us)
  show ?case
  proof (cases "doc_id u = i")
    case True
    with Cons.prems(1) have "i \<notin> doc_id ` set us" by auto
    with True show ?thesis by (simp add: filter_other_ids)
  next
    case False
    with Cons show ?thesis by auto
  qed
qed

lemma put_user_found:
  assumes "wf_db d" and "castObjectId idp = Inr (doc_id u)" and "u \<in> set (docs d)"
  shows "put_user d idp (Some b) =
    (Inr (Doc (apply_update (user_fields b) u)),
     d\<lparr>docs := map (\<lambda>x. if doc_id x = doc_id u then apply_update (user_fields b) u else x) (docs d)\<rparr>)"
proof -
  from assms(1) have dist: "distinct (map doc_id (docs d))" by (simp add: wf_db_def)
  have "List.find (\<lambda>x. doc_id x = doc_id u) (docs d) = Some u"
    using dist assms(3) by (rule find_by_id_distinct)
  moreover have "update_by_id (doc_id u) (apply_update (user_fields b)) (docs d) =
      map (\<lambda>x. if doc_id x = doc_id u then apply_update (user_fields b) u else x) (docs d)"
    using update_by_id_map [OF dist, of "doc_id u" "apply_update (user_fields b)"]
      map_update_unique [OF dist assms(3), of "apply_update (user_fields b)"]
    by (rule trans)
  ultimately show ?thesis
    using assms(2) by (simp add: put_user_def findByIdAndUpdate_def)
qed

lemma put_user_not_found:
  assumes "castObjectId idp = Inr i" and "i \<notin> doc_id ` set (docs d)"
  shows "put_user d idp (Some b) = (Inr Null, d)"
proof -
  from assms(2) have "List.find (\<lambda>x. doc_id x = i) (docs d) = None"
    by (simp add: find_by_id_None)
  with assms(1) show ?thesis by (simp add: put_user_def findByIdAndUpdate_def)
qed

lemma castObjectId_cases:
  "castObjectId s = Inl (CastError s) \<or> (\<exists>i. castObjectId s = Inr i)"
  by (simp add: castObjectId_def split: option.splits)

lemma put_user_malformed:
  assumes "\<forall>i. castObjectId idp \<noteq> Inr i"
  shows "put_user d idp (Some b) = (Inl (CastError idp), d)"
proof -
  from assms castObjectId_cases [of idp] have "castObjectId idp = Inl (CastError idp)" by blast
  then show ?thesis by (simp add: put_user_def findByIdAndUpdate_def)
qed

lemma delete_user_found:
  assumes "wf_db d" and "castObjectId idp = Inr i"
  shows "delete_user d idp =
    (Inr (Text ''User deleted''), d\<lparr>docs := filter (\<lambda>u. doc_id u \<noteq> i) (docs d)\<rparr>)"
proof -
  from assms(1) have dist: "distinct (map doc_id (docs d))" by (simp add: wf_db_def)
  show ?thesis
  proof (cases "List.find (\<lambda>u. doc_id u = i) (docs d)")
    case None
    then have "i \<notin> doc_id ` set (docs d)" by (simp add: find_by_id_None)
    then have "filter (\<lambda>u. doc_id u \<noteq> i) (docs d) = docs d" by (rule filter_other_ids)
    with None assms(2) show ?thesis
      by (simp add: delete_user_def findByIdAndDelete_def)
  next
    case (Some u)
    with assms(2) dist show ?thesis
      by (simp add: delete_user_def findByIdAndDelete_def delete_by_id_filter)
  qed
qed

lemma delete_user_malformed:
  assumes "castObjectId idp = Inl e"
  shows "delete_user d idp = (Inl e, d)"
  using assms by (simp add: delete_user_def findByIdAndDelete_def)

lemma wf_filter: "wf_db d \<Longrightarrow> wf_db (d\<lparr>docs := filter P (docs d)\<rparr>)"
  by (auto simp: wf_db_def distinct_map_filter)

subsection \<open>Create reads three fields\<close>




subsection \<open>Fields of a body\<close>

lemma body_field_Some:
  "body_field r k = Some v \<Longrightarrow> \<exists>b. body r = Some b \<and> b k = Some v"
  by (auto simp: body_field_def split: option.splits)

lemma body_field_of_body: "body r = Some b \<Longrightarrow> body_field r k = b k"
  by (simp add: body_field_def)

section \<open>The authentication gate\<close>

text \<open>
  C1. A request whose bearer token is absent or differs from the fixed secret ends with the
  error \<open>Unauthorized\<close> and the database as it was, whatever handler is registered behind
  the gate (so no handler ran); a request with the secret is handed to the handler; the
  gate lets a token through if and only if it is the secret.
\<close>

theorem gate_rejects_without_secret:
  "(bearer req \<noteq> Some ''12345678'' \<longrightarrow>
      lifecycle onBeforeHandle handler d req = (Inl (Error ''Unauthorized''), d) \<and>
      handle d req = (Inl (Error ''Unauthorized''), d)) \<and>
   (bearer req = Some ''12345678'' \<longrightarrow>
      lifecycle onBeforeHandle handler d req = handler d req) \<and>
   (onBeforeHandle (bearer req) = Inr () \<longleftrightarrow> bearer req = Some ''12345678'')"
proof -
  have ok: "onBeforeHandle (Some ''12345678'') = Inr ()"
    by (simp add: onBeforeHandle_iff)
  show ?thesis
    by (simp add: handle_def lifecycle_def onBeforeHandle_iff onBeforeHandle_reject ok)
qed

theorem gate_rejects_without_secret_witness:
  "handle \<lparr>docs = [\<lparr>doc_id = 0, name = ''Ann'', email = ''ann@x.com'', password = ''secret''\<rparr>], next_oid = 1\<rparr>
      \<lparr>bearer = Some ''1234567'', route = DELETE_user ''000000000000000000000000'', body = None\<rparr>
    = (Inl (Error ''Unauthorized''),
       \<lparr>docs = [\<lparr>doc_id = 0, name = ''Ann'', email = ''ann@x.com'', password = ''secret''\<rparr>], next_oid = 1\<rparr>)"
  using gate_rejects_without_secret
    [of "\<lparr>bearer = Some ''1234567'', route = DELETE_user ''000000000000000000000000'', body = None\<rparr>"
        UserController
        "\<lparr>docs = [\<lparr>doc_id = 0, name = ''Ann'', email = ''ann@x.com'', password = ''secret''\<rparr>], next_oid = 1\<rparr>"]
  by simp

section \<open>Creating users\<close>

text \<open>
  C2. A create request with the secret whose body has \<open>name\<close>, \<open>email\<close> and \<open>password\<close>,
  each of 3 to 255 characters, is answered with a document carrying exactly these three
  values and an identifier that no document of the collection had; the document is
  appended to the collection, and a list request on the resulting database returns a
  collection that contains it.
\<close>

theorem create_returns_record:
  assumes "wf_db d"
    and "bearer req = Some ''12345678''" and "route req = POST_user"
    and "body_field req ''name'' = Some n" and "body_field req ''email'' = Some e"
    and "body_field req ''password'' = Some p"
    and "3 \<le> length n \<and> length n \<le> 255" and "3 \<le> length e \<and> length e \<le> 255"
    and "3 \<le> length p \<and> length p \<le> 255"
  shows "\<exists>u d'. handle d req = (Inr (Doc u), d') \<and>
           name u = n \<and> email u = e \<and> password u = p \<and>
           doc_id u \<notin> doc_id ` set (docs d) \<and>
           docs d' = docs d @ [u] \<and>
           handle d' \<lparr>bearer = Some ''12345678'', route = GET_user, body = b\<rparr>
             = (Inr (Docs (docs d')), d') \<and>
           u \<in> set (docs d')"
proof -
  let ?u = "\<lparr>doc_id = next_oid d, name = n, email = e, password = p\<rparr>"
  let ?d' = "d\<lparr>docs := docs d @ [?u], next_oid := Suc (next_oid d)\<rparr>"
  from assms(4) obtain b0 where b0: "body req = Some b0" and "b0 ''name'' = Some n"
    by (auto dest: body_field_Some)
  with assms(5,6) have fields: "b0 ''name'' = Some n" "b0 ''email'' = Some e" "b0 ''password'' = Some p"
    by (simp_all add: body_field_of_body)
  have "post_user d (Some b0) = (Inr (Doc ?u), ?d')"
    using assms(1) fields assms(7-9) by (intro post_user_valid) simp_all
  then have step: "handle d req = (Inr (Doc ?u), ?d')"
    using assms(2,3) b0 by (simp add: handle_POST)
  have fresh: "doc_id ?u \<notin> doc_id ` set (docs d)"
    using next_oid_fresh [OF assms(1)] by simp
  have list: "handle ?d' \<lparr>bearer = Some ''12345678'', route = GET_user, body = b\<rparr>
      = (Inr (Docs (docs ?d')), ?d')"
    by (rule handle_GET) simp_all
  show ?thesis
    using step fresh list by (intro exI [of _ ?u] exI [of _ ?d']) simp
qed

theorem create_returns_record_witness:
  "wf_db empty_db \<and>
   (\<exists>u d'. handle empty_db
        \<lparr>bearer = Some ''12345678'', route = POST_user,
         body = Some [''name'' \<mapsto> ''Ann'', ''email'' \<mapsto> ''ann@x.com'', ''password'' \<mapsto> ''secret'']\<rparr>
        = (Inr (Doc u), d') \<and>
      name u = ''Ann'' \<and> email u = ''ann@x.com'' \<and> password u = ''secret'' \<and>
      doc_id u \<notin> doc_id ` set (docs empty_db) \<and>
      docs d' = docs empty_db @ [u] \<and>
      handle d' \<lparr>bearer = Some ''12345678'', route = GET_user, body = None\<rparr>
        = (Inr (Docs (docs d')), d') \<and>
      u \<in> set (docs d'))"
  using create_returns_record
    [of empty_db
        "\<lparr>bearer = Some ''12345678'', route = POST_user,
          body = Some [''name'' \<mapsto> ''Ann'', ''email'' \<mapsto> ''ann@x.com'', ''password'' \<mapsto> ''secret'']\<rparr>"
        "''Ann''" "''ann@x.com''" "''secret''" None]
  by (simp add: wf_empty_db body_field_def)

text \<open>
  C3, as amended. A create request with the secret whose body is an object in which one of
  \<open>name\<close>, \<open>email\<close>, \<open>password\<close> is missing, shorter than 3 or longer than 255 characters
  ends with a validation error that names the offending field, and leaves the database as
  it was. A create request with the secret and no body ends with the type error of the
  destructuring, before any write is attempted, and leaves the database as it was.
\<close>

theorem create_invalid_rejected:
  assumes "bearer req = Some ''12345678''" and "route req = POST_user"
  shows "(body req = None \<longrightarrow> handle d req = (Inl TypeError, d)) \<and>
         (body req = Some b \<and> (f = ''name'' \<or> f = ''email'' \<or> f = ''password'') \<and>
          (b f = None \<or> (\<exists>s. b f = Some s \<and> (length s < 3 \<or> 255 < length s))) \<longrightarrow>
            (\<exists>errs. handle d req = (Inl (ValidationError errs), d) \<and> errs \<noteq> [] \<and>
                    f \<in> fst ` set errs))"
proof -
  have none: "handle d req = (Inl TypeError, d)" if "body req = None"
    using assms that by (simp add: handle_POST post_user_no_body)
  have some: "\<exists>errs. handle d req = (Inl (ValidationError errs), d) \<and> errs \<noteq> [] \<and> f \<in> fst ` set errs"
    if b: "body req = Some b" and f: "f = ''name'' \<or> f = ''email'' \<or> f = ''password''"
      and bad: "b f = None \<or> (\<exists>s. b f = Some s \<and> (length s < 3 \<or> 255 < length s))"
  proof -
    have "validate_path \<lparr>required = True, minlength = 3, maxlength = 255\<rparr> (b f) \<noteq> None"
      using bad by (auto simp: validate_path_user)
    then obtain k where
      "validate_path \<lparr>required = True, minlength = 3, maxlength = 255\<rparr> (b f) = Some k"
      by blast
    with f have mem: "(f, k) \<in> set (validate UserSchema b)"
      by (rule validate_UserSchema_paths)
    then have ne: "validate UserSchema b \<noteq> []"
      by auto
    then have "post_user d (Some b) = (Inl (ValidationError (validate UserSchema b)), d)"
      by (rule post_user_invalid)
    then have "handle d req = (Inl (ValidationError (validate UserSchema b)), d)"
      using assms b by (simp add: handle_POST)
    moreover have "f \<in> fst ` set (validate UserSchema b)"
      using mem by force
    ultimately show ?thesis
      using ne by blast
  qed
  from none some show ?thesis by blast
qed

theorem create_invalid_rejected_witness:
  "handle \<lparr>docs = [\<lparr>doc_id = 0, name = ''Ann'', email = ''ann@x.com'', password = ''secret''\<rparr>], next_oid = 1\<rparr>
      \<lparr>bearer = Some ''12345678'', route = POST_user,
       body = Some [''name'' \<mapsto> ''Bo'', ''password'' \<mapsto> ''secret'']\<rparr>
    = (Inl (ValidationError [(''name'', Minlength), (''email'', Required)]),
       \<lparr>docs = [\<lparr>doc_id = 0, name = ''Ann'', email = ''ann@x.com'', password = ''secret''\<rparr>], next_oid = 1\<rparr>)"
proof -
  let ?d = "\<lparr>docs = [\<lparr>doc_id = 0, name = ''Ann'', email = ''ann@x.com'', password = ''secret''\<rparr>], next_oid = 1\<rparr>"
  let ?b = "[''name'' \<mapsto> ''Bo'', ''password'' \<mapsto> ''secret'']"
  let ?req = "\<lparr>bearer = Some ''12345678'', route = POST_user, body = Some ?b\<rparr>"
  have "bearer ?req = Some ''12345678''" and "route ?req = POST_user"
    by simp_all
  from create_invalid_rejected [OF this, of ?d ?b "''email''"]
  have "\<exists>errs. handle ?d ?req = (Inl (ValidationError errs), ?d) \<and> errs \<noteq> [] \<and> ''email'' \<in> fst ` set errs"
    by simp
  moreover have "fst (handle ?d ?req) = Inl (ValidationError [(''name'', Minlength), (''email'', Required)])"
    by (simp add: handle_POST post_user_def create_def supplied_id_def user_fields_def validate_def
        UserSchema_def validate_path_def)
  ultimately show ?thesis
    by auto
qed

theorem create_invalid_rejected_counterexample:
  "body_field \<lparr>bearer = Some ''12345678'', route = POST_user, body = None\<rparr> ''name'' = None \<and>
   handle \<lparr>docs = [\<lparr>doc_id = 0, name = ''Ann'', email = ''ann@x.com'', password = ''secret''\<rparr>], next_oid = 1\<rparr>
      \<lparr>bearer = Some ''12345678'', route = POST_user, body = None\<rparr>
    = (Inl TypeError,
       \<lparr>docs = [\<lparr>doc_id = 0, name = ''Ann'', email = ''ann@x.com'', password = ''secret''\<rparr>], next_oid = 1\<rparr>) \<and>
   (\<forall>errs. fst (handle \<lparr>docs = [\<lparr>doc_id = 0, name = ''Ann'', email = ''ann@x.com'', password = ''secret''\<rparr>], next_oid = 1\<rparr>
      \<lparr>bearer = Some ''12345678'', route = POST_user, body = None\<rparr>)
     \<noteq> Inl (ValidationError errs))"
  by (simp add: body_field_def handle_POST post_user_no_body)

section \<open>Listing users\<close>

text \<open>
  C4. A list request with the secret returns the whole collection as it is stored, and
  leaves it as it is. After any run of requests from the empty database in which no
  request is a delete, the list has as many documents as the run had successful creates.
\<close>

theorem list_returns_collection:
  "handle d \<lparr>bearer = Some ''12345678'', route = GET_user, body = b\<rparr> = (Inr (Docs (docs d)), d) \<and>
   ((\<forall>r \<in> set rs. \<not> is_delete r) \<and> serve empty_db rs = (outs, d') \<longrightarrow>
      (\<exists>us. handle d' \<lparr>bearer = Some ''12345678'', route = GET_user, body = b\<rparr> = (Inr (Docs us), d') \<and>
            length us = successful_creates rs outs))"
proof -
  have list: "handle x \<lparr>bearer = Some ''12345678'', route = GET_user, body = b\<rparr> = (Inr (Docs (docs x)), x)" for x
    by (rule handle_GET) simp_all
  have "length (docs d') = successful_creates rs outs"
    if "\<forall>r \<in> set rs. \<not> is_delete r" and "serve empty_db rs = (outs, d')"
    using length_docs_serve [OF that] by (simp add: empty_db_def)
  with list show ?thesis by blast
qed

theorem list_returns_collection_witness:
  "serve empty_db
     [\<lparr>bearer = Some ''12345678'', route = POST_user,
        body = Some [''name'' \<mapsto> ''Ann'', ''email'' \<mapsto> ''ann@x.com'', ''password'' \<mapsto> ''secret'']\<rparr>,
      \<lparr>bearer = Some ''12345678'', route = POST_user,
        body = Some [''name'' \<mapsto> ''Bo'', ''email'' \<mapsto> ''bo@x.com'', ''password'' \<mapsto> ''secret'']\<rparr>,
      \<lparr>bearer = Some ''12345678'', route = POST_user, body = None\<rparr>,
      \<lparr>bearer = Some ''12345678'', route = PUT_user ''ffffffffffffffffffffffff'',
        body = Some [''name'' \<mapsto> ''Anna'', ''email'' \<mapsto> ''ann@x.com'', ''password'' \<mapsto> ''secret'']\<rparr>,
      \<lparr>bearer = None, route = POST_user,
        body = Some [''name'' \<mapsto> ''Eve'', ''email'' \<mapsto> ''eve@x.com'', ''password'' \<mapsto> ''secret'']\<rparr>,
      \<lparr>bearer = Some ''12345678'', route = POST_user,
        body = Some [''name'' \<mapsto> ''Bob'', ''email'' \<mapsto> ''bob@x.com'', ''password'' \<mapsto> ''hunter2'']\<rparr>]
   = ([Inr (Doc \<lparr>doc_id = 0, name = ''Ann'', email = ''ann@x.com'', password = ''secret''\<rparr>),
      Inl (ValidationError [(''name'', Minlength)]),
      Inl TypeError,
      Inr Null,
      Inl (Error ''Unauthorized''),
      Inr (Doc \<lparr>doc_id = 1, name = ''Bob'', email = ''bob@x.com'', password = ''hunter2''\<rparr>)],
      \<lparr>docs = [\<lparr>doc_id = 0, name = ''Ann'', email = ''ann@x.com'', password = ''secret''\<rparr>,
        \<lparr>doc_id = 1, name = ''Bob'', email = ''bob@x.com'', password = ''hunter2''\<rparr>], next_oid = 2\<rparr>) \<and>
   handle \<lparr>docs = [\<lparr>doc_id = 0, name = ''Ann'', email = ''ann@x.com'', password = ''secret''\<rparr>,
        \<lparr>doc_id = 1, name = ''Bob'', email = ''bob@x.com'', password = ''hunter2''\<rparr>], next_oid = 2\<rparr>
     \<lparr>bearer = Some ''12345678'', route = GET_user, body = None\<rparr>
   = (Inr (Docs [\<lparr>doc_id = 0, name = ''Ann'', email = ''ann@x.com'', password = ''secret''\<rparr>,
        \<lparr>doc_id = 1, name = ''Bob'', email = ''bob@x.com'', password = ''hunter2''\<rparr>]),
      \<lparr>docs = [\<lparr>doc_id = 0, name = ''Ann'', email = ''ann@x.com'', password = ''secret''\<rparr>,
        \<lparr>doc_id = 1, name = ''Bob'', email = ''bob@x.com'', password = ''hunter2''\<rparr>], next_oid = 2\<rparr>) \<and>
   successful_creates
     [\<lparr>bearer = Some ''12345678'', route = POST_user,
        body = Some [''name'' \<mapsto> ''Ann'', ''email'' \<mapsto> ''ann@x.com'', ''password'' \<mapsto> ''secret'']\<rparr>,
      \<lparr>bearer = Some ''12345678'', route = POST_user,
        body = Some [''name'' \<mapsto> ''Bo'', ''email'' \<mapsto> ''bo@x.com'', ''password'' \<mapsto> ''secret'']\<rparr>,
      \<lparr>bearer = Some ''12345678'', route = POST_user, body = None\<rparr>,
      \<lparr>bearer = Some ''12345678'', route = PUT_user ''ffffffffffffffffffffffff'',
        body = Some [''name'' \<mapsto> ''Anna'', ''email'' \<mapsto> ''ann@x.com'', ''password'' \<mapsto> ''secret'']\<rparr>,
      \<lparr>bearer = None, route = POST_user,
        body = Some [''name'' \<mapsto> ''Eve'', ''email'' \<mapsto> ''eve@x.com'', ''password'' \<mapsto> ''secret'']\<rparr>,
      \<lparr>bearer = Some ''12345678'', route = POST_user,
        body = Some [''name'' \<mapsto> ''Bob'', ''email'' \<mapsto> ''bob@x.com'', ''password'' \<mapsto> ''hunter2'']\<rparr>]
     [Inr (Doc \<lparr>doc_id = 0, name = ''Ann'', email = ''ann@x.com'', password = ''secret''\<rparr>),
      Inl (ValidationError [(''name'', Minlength)]),
      Inl TypeError,
      Inr Null,
      Inl (Error ''Unauthorized''),
      Inr (Doc \<lparr>doc_id = 1, name = ''Bob'', email = ''bob@x.com'', password = ''hunter2''\<rparr>)] = 2"
proof -
  let ?rs = "[\<lparr>bearer = Some ''12345678'', route = POST_user,
        body = Some [''name'' \<mapsto> ''Ann'', ''email'' \<mapsto> ''ann@x.com'', ''password'' \<mapsto> ''secret'']\<rparr>,
      \<lparr>bearer = Some ''12345678'', route = POST_user,
        body = Some [''name'' \<mapsto> ''Bo'', ''email'' \<mapsto> ''bo@x.com'', ''password'' \<mapsto> ''secret'']\<rparr>,
      \<lparr>bearer = Some ''12345678'', route = POST_user, body = None\<rparr>,
      \<lparr>bearer = Some ''12345678'', route = PUT_user ''ffffffffffffffffffffffff'',
        body = Some [''name'' \<mapsto> ''Anna'', ''email'' \<mapsto> ''ann@x.com'', ''password'' \<mapsto> ''secret'']\<rparr>,
      \<lparr>bearer = None, route = POST_user,
        body = Some [''name'' \<mapsto> ''Eve'', ''email'' \<mapsto> ''eve@x.com'', ''password'' \<mapsto> ''secret'']\<rparr>,
      \<lparr>bearer = Some ''12345678'', route = POST_user,
        body = Some [''name'' \<mapsto> ''Bob'', ''email'' \<mapsto> ''bob@x.com'', ''password'' \<mapsto> ''hunter2'']\<rparr>]"
  let ?outs = "[Inr (Doc \<lparr>doc_id = 0, name = ''Ann'', email = ''ann@x.com'', password = ''secret''\<rparr>),
      Inl (ValidationError [(''name'', Minlength)]),
      Inl TypeError,
      Inr Null,
      Inl (Error ''Unauthorized''),
      Inr (Doc \<lparr>doc_id = 1, name = ''Bob'', email = ''bob@x.com'', password = ''hunter2''\<rparr>)]"
  let ?d' = "\<lparr>docs = [\<lparr>doc_id = 0, name = ''Ann'', email = ''ann@x.com'', password = ''secret''\<rparr>,
        \<lparr>doc_id = 1, name = ''Bob'', email = ''bob@x.com'', password = ''hunter2''\<rparr>], next_oid = 2\<rparr>"
  have no_delete: "\<forall>r \<in> set ?rs. \<not> is_delete r"
    by (simp add: is_delete_def)
  have hex: "castObjectId ''ffffffffffffffffffffffff'' = Inr 79228162514264337593543950335"
    by (simp add: castObjectId_def hex_digit_def)
  have run: "serve empty_db ?rs = (?outs, ?d')"
    by (simp add: handle_def lifecycle_def onBeforeHandle_def falsy_def UserController_def
        post_user_def put_user_def create_def supplied_id_def user_fields_def validate_def
        UserSchema_def validate_path_def findByIdAndUpdate_def hex empty_db_def Let_def)
  have count: "successful_creates ?rs ?outs = 2"
    by (simp add: successful_creates_def created_def)
  from list_returns_collection [of ?d' None ?rs ?outs ?d'] no_delete run count
  show ?thesis
    by simp
qed

section \<open>Updating and deleting users\<close>

text \<open>
  C5, as amended. An update request with the secret whose identifier is that of a stored
  document and whose body is an object is answered with that document, in which each of
  \<open>name\<close>, \<open>email\<close>, \<open>password\<close> that the body has carries the body's value and each
  that the body lacks carries the stored value; so a body with all three fields replaces
  all three. The identifier stays, in the collection exactly this document is replaced by
  the answer, and a list request on the resulting database returns the collection with
  the updated document in it. (No validator runs: the values may have any length.) An
  update request with the secret and no body ends with the type error of the
  destructuring and changes nothing.
\<close>

theorem update_replaces_fields:
  assumes "wf_db d"
    and "bearer req = Some ''12345678''" and "route req = PUT_user idp"
    and "u \<in> set (docs d)" and "castObjectId idp = Inr (doc_id u)"
  shows "(body req = None \<longrightarrow> handle d req = (Inl TypeError, d)) \<and>
         (body req = Some b \<longrightarrow>
            (let u' = u\<lparr>name := (case b ''name'' of None \<Rightarrow> name u | Some v \<Rightarrow> v),
                        email := (case b ''email'' of None \<Rightarrow> email u | Some v \<Rightarrow> v),
                        password := (case b ''password'' of None \<Rightarrow> password u | Some v \<Rightarrow> v)\<rparr>;
                 d' = d\<lparr>docs := map (\<lambda>x. if doc_id x = doc_id u then u' else x) (docs d)\<rparr>
             in handle d req = (Inr (Doc u'), d') \<and>
                u' \<in> set (docs d') \<and>
                handle d' \<lparr>bearer = Some ''12345678'', route = GET_user, body = b'\<rparr>
                  = (Inr (Docs (docs d')), d'))) \<and>
         (body req = Some b \<and> b ''name'' = Some n \<and> b ''email'' = Some e \<and>
          b ''password'' = Some p \<longrightarrow>
            handle d req =
              (Inr (Doc (u\<lparr>name := n, email := e, password := p\<rparr>)),
               d\<lparr>docs := map (\<lambda>x. if doc_id x = doc_id u
                                    then u\<lparr>name := n, email := e, password := p\<rparr> else x) (docs d)\<rparr>))"
proof -
  have none: "handle d req = (Inl TypeError, d)" if "body req = None"
    using assms(2,3) that by (simp add: handle_PUT put_user_no_body)
  have some: "let u' = u\<lparr>name := (case b ''name'' of None \<Rightarrow> name u | Some v \<Rightarrow> v),
                        email := (case b ''email'' of None \<Rightarrow> email u | Some v \<Rightarrow> v),
                        password := (case b ''password'' of None \<Rightarrow> password u | Some v \<Rightarrow> v)\<rparr>;
                 d' = d\<lparr>docs := map (\<lambda>x. if doc_id x = doc_id u then u' else x) (docs d)\<rparr>
             in handle d req = (Inr (Doc u'), d') \<and>
                u' \<in> set (docs d') \<and>
                handle d' \<lparr>bearer = Some ''12345678'', route = GET_user, body = b'\<rparr>
                  = (Inr (Docs (docs d')), d')"
    if b: "body req = Some b"
  proof -
    let ?u' = "u\<lparr>name := (case b ''name'' of None \<Rightarrow> name u | Some v \<Rightarrow> v),
                   email := (case b ''email'' of None \<Rightarrow> email u | Some v \<Rightarrow> v),
                   password := (case b ''password'' of None \<Rightarrow> password u | Some v \<Rightarrow> v)\<rparr>"
    let ?d' = "d\<lparr>docs := map (\<lambda>x. if doc_id x = doc_id u then ?u' else x) (docs d)\<rparr>"
    have upd: "apply_update (user_fields b) u = ?u'"
      by (simp add: apply_update_def)
    have "put_user d idp (Some b) = (Inr (Doc ?u'), ?d')"
      using put_user_found [OF assms(1,5,4), of b] by (simp add: upd)
    then have step: "handle d req = (Inr (Doc ?u'), ?d')"
      using assms(2,3) b by (simp add: handle_PUT)
    have mem: "?u' \<in> set (docs ?d')"
      using assms(4) by force
    have list: "handle ?d' \<lparr>bearer = Some ''12345678'', route = GET_user, body = b'\<rparr>
        = (Inr (Docs (docs ?d')), ?d')"
      by (rule handle_GET) simp_all
    show ?thesis
      using step mem list by (simp add: Let_def)
  qed
  have full: "handle d req =
      (Inr (Doc (u\<lparr>name := n, email := e, password := p\<rparr>)),
       d\<lparr>docs := map (\<lambda>x. if doc_id x = doc_id u
                            then u\<lparr>name := n, email := e, password := p\<rparr> else x) (docs d)\<rparr>)"
    if "body req = Some b" "b ''name'' = Some n" "b ''email'' = Some e" "b ''password'' = Some p"
    using some [OF that(1)] that(2-4) by (simp add: Let_def)
  from none some full show ?thesis by blast
qed

theorem update_replaces_fields_witness:
  "handle \<lparr>docs = [\<lparr>doc_id = 0, name = ''Ann'', email = ''ann@x.com'', password = ''secret''\<rparr>,
              \<lparr>doc_id = 1, name = ''Bob'', email = ''bob@x.com'', password = ''hunter2''\<rparr>], next_oid = 2\<rparr>
      \<lparr>bearer = Some ''12345678'', route = PUT_user ''000000000000000000000001'',
         body = Some [''name'' \<mapsto> ''Bobby'', ''email'' \<mapsto> ''bobby@x.com'', ''password'' \<mapsto> ''hunter3'']\<rparr>
    = (Inr (Doc \<lparr>doc_id = 1, name = ''Bobby'', email = ''bobby@x.com'', password = ''hunter3''\<rparr>),
       \<lparr>docs = [\<lparr>doc_id = 0, name = ''Ann'', email = ''ann@x.com'', password = ''secret''\<rparr>,
              \<lparr>doc_id = 1, name = ''Bobby'', email = ''bobby@x.com'', password = ''hunter3''\<rparr>], next_oid = 2\<rparr>) \<and>
   handle \<lparr>docs = [\<lparr>doc_id = 0, name = ''Ann'', email = ''ann@x.com'', password = ''secret''\<rparr>,
              \<lparr>doc_id = 1, name = ''Bobby'', email = ''bobby@x.com'', password = ''hunter3''\<rparr>], next_oid = 2\<rparr>
      \<lparr>bearer = Some ''12345678'', route = GET_user, body = None\<rparr>
    = (Inr (Docs [\<lparr>doc_id = 0, name = ''Ann'', email = ''ann@x.com'', password = ''secret''\<rparr>,
                  \<lparr>doc_id = 1, name = ''Bobby'', email = ''bobby@x.com'', password = ''hunter3''\<rparr>]),
       \<lparr>docs = [\<lparr>doc_id = 0, name = ''Ann'', email = ''ann@x.com'', password = ''secret''\<rparr>,
              \<lparr>doc_id = 1, name = ''Bobby'', email = ''bobby@x.com'', password = ''hunter3''\<rparr>], next_oid = 2\<rparr>)"
proof -
  let ?d = "\<lparr>docs = [\<lparr>doc_id = 0, name = ''Ann'', email = ''ann@x.com'', password = ''secret''\<rparr>,
              \<lparr>doc_id = 1, name = ''Bob'', email = ''bob@x.com'', password = ''hunter2''\<rparr>], next_oid = 2\<rparr>"
  let ?req = "\<lparr>bearer = Some ''12345678'', route = PUT_user ''000000000000000000000001'',
         body = Some [''name'' \<mapsto> ''Bobby'', ''email'' \<mapsto> ''bobby@x.com'', ''password'' \<mapsto> ''hunter3'']\<rparr>"
  have wf: "wf_db ?d"
    by (simp add: wf_db_def)
  have hex: "castObjectId ''000000000000000000000001'' = Inr 1"
    by (simp add: castObjectId_def hex_digit_def)
  have "bearer ?req = Some ''12345678''"
    and "route ?req = PUT_user ''000000000000000000000001''"
    and "\<lparr>doc_id = 1, name = ''Bob'', email = ''bob@x.com'', password = ''hunter2''\<rparr> \<in> set (docs ?d)"
    and "castObjectId ''000000000000000000000001''
      = Inr (doc_id \<lparr>doc_id = 1, name = ''Bob'', email = ''bob@x.com'', password = ''hunter2''\<rparr>)"
    by (simp_all add: hex)
  from update_replaces_fields [OF wf this, of "[''name'' \<mapsto> ''Bobby'', ''email'' \<mapsto> ''bobby@x.com'', ''password'' \<mapsto> ''hunter3'']" None]
  show ?thesis
    by (simp add: Let_def)
qed

theorem update_replaces_fields_counterexample:
  "handle \<lparr>docs = [\<lparr>doc_id = 0, name = ''Ann'', email = ''ann@x.com'', password = ''secret''\<rparr>,
              \<lparr>doc_id = 1, name = ''Bob'', email = ''bob@x.com'', password = ''hunter2''\<rparr>], next_oid = 2\<rparr>
      \<lparr>bearer = Some ''12345678'', route = PUT_user ''000000000000000000000001'',
         body = Some [''name'' \<mapsto> ''Bobby'']\<rparr>
    = (Inr (Doc \<lparr>doc_id = 1, name = ''Bobby'', email = ''bob@x.com'', password = ''hunter2''\<rparr>),
       \<lparr>docs = [\<lparr>doc_id = 0, name = ''Ann'', email = ''ann@x.com'', password = ''secret''\<rparr>,
              \<lparr>doc_id = 1, name = ''Bobby'', email = ''bob@x.com'', password = ''hunter2''\<rparr>], next_oid = 2\<rparr>) \<and>
   body_field \<lparr>bearer = Some ''12345678'', route = PUT_user ''000000000000000000000001'',
         body = Some [''name'' \<mapsto> ''Bobby'']\<rparr> ''email'' = None \<and>
   email \<lparr>doc_id = 1, name = ''Bobby'', email = ''bob@x.com'', password = ''hunter2''\<rparr> = ''bob@x.com''"
proof -
  have hex: "castObjectId ''000000000000000000000001'' = Inr 1"
    by (simp add: castObjectId_def hex_digit_def)
  show ?thesis
    by (simp add: handle_PUT put_user_def findByIdAndUpdate_def hex apply_update_def
        user_fields_def body_field_def)
qed

text \<open>
  C6, as amended. An update request with the secret whose identifier matches no stored
  document leaves the database as it was and creates nothing. When the request has no
  body it ends with the type error of the destructuring. When it has a body and the
  identifier casts to an ObjectId the answer is \<open>null\<close>; when it has a body and the
  identifier does not cast, the request ends with the cast error.
\<close>

theorem update_unknown_id:
  assumes "bearer req = Some ''12345678''" and "route req = PUT_user idp"
    and "\<forall>u \<in> set (docs d). castObjectId idp \<noteq> Inr (doc_id u)"
  shows "(body req = None \<longrightarrow> handle d req = (Inl TypeError, d)) \<and>
         (body req \<noteq> None \<and> castObjectId idp = Inr i \<longrightarrow> handle d req = (Inr Null, d)) \<and>
         (body req \<noteq> None \<and> (\<forall>j. castObjectId idp \<noteq> Inr j) \<longrightarrow>
            handle d req = (Inl (CastError idp), d))"
proof -
  have none: "handle d req = (Inl TypeError, d)" if "body req = None"
    using assms(1,2) that by (simp add: handle_PUT put_user_no_body)
  have null: "handle d req = (Inr Null, d)" if "body req \<noteq> None" "castObjectId idp = Inr i"
  proof -
    from that(1) obtain b where b: "body req = Some b" by auto
    from assms(3) that(2) have "i \<notin> doc_id ` set (docs d)" by auto
    with that(2) have "put_user d idp (Some b) = (Inr Null, d)" by (rule put_user_not_found)
    with assms(1,2) b show ?thesis by (simp add: handle_PUT)
  qed
  have cast: "handle d req = (Inl (CastError idp), d)"
    if "body req \<noteq> None" "\<forall>j. castObjectId idp \<noteq> Inr j"
  proof -
    from that(1) obtain b where b: "body req = Some b" by auto
    from that(2) have "put_user d idp (Some b) = (Inl (CastError idp), d)" by (rule put_user_malformed)
    with assms(1,2) b show ?thesis by (simp add: handle_PUT)
  qed
  from none null cast show ?thesis by blast
qed

theorem update_unknown_id_witness:
  "castObjectId ''00000000000000000000000a'' = Inr 10 \<and>
   handle \<lparr>docs = [\<lparr>doc_id = 0, name = ''Ann'', email = ''ann@x.com'', password = ''secret''\<rparr>,
              \<lparr>doc_id = 1, name = ''Bob'', email = ''bob@x.com'', password = ''hunter2''\<rparr>], next_oid = 2\<rparr>
      \<lparr>bearer = Some ''12345678'', route = PUT_user ''00000000000000000000000a'',
         body = Some [''name'' \<mapsto> ''Bobby'', ''email'' \<mapsto> ''bobby@x.com'', ''password'' \<mapsto> ''hunter3'']\<rparr>
    = (Inr Null,
       \<lparr>docs = [\<lparr>doc_id = 0, name = ''Ann'', email = ''ann@x.com'', password = ''secret''\<rparr>,
              \<lparr>doc_id = 1, name = ''Bob'', email = ''bob@x.com'', password = ''hunter2''\<rparr>], next_oid = 2\<rparr>) \<and>
   handle \<lparr>docs = [\<lparr>doc_id = 0, name = ''Ann'', email = ''ann@x.com'', password = ''secret''\<rparr>,
              \<lparr>doc_id = 1, name = ''Bob'', email = ''bob@x.com'', password = ''hunter2''\<rparr>], next_oid = 2\<rparr>
      \<lparr>bearer = Some ''12345678'', route = PUT_user ''abc'',
         body = Some [''name'' \<mapsto> ''Bobby'', ''email'' \<mapsto> ''bobby@x.com'', ''password'' \<mapsto> ''hunter3'']\<rparr>
    = (Inl (CastError ''abc''),
       \<lparr>docs = [\<lparr>doc_id = 0, name = ''Ann'', email = ''ann@x.com'', password = ''secret''\<rparr>,
              \<lparr>doc_id = 1, name = ''Bob'', email = ''bob@x.com'', password = ''hunter2''\<rparr>], next_oid = 2\<rparr>) \<and>
   handle \<lparr>docs = [\<lparr>doc_id = 0, name = ''Ann'', email = ''ann@x.com'', password = ''secret''\<rparr>,
              \<lparr>doc_id = 1, name = ''Bob'', email = ''bob@x.com'', password = ''hunter2''\<rparr>], next_oid = 2\<rparr>
      \<lparr>bearer = Some ''12345678'', route = PUT_user ''00000000000000000000000a'',
         body = None\<rparr>
    = (Inl TypeError,
       \<lparr>docs = [\<lparr>doc_id = 0, name = ''Ann'', email = ''ann@x.com'', password = ''secret''\<rparr>,
              \<lparr>doc_id = 1, name = ''Bob'', email = ''bob@x.com'', password = ''hunter2''\<rparr>], next_oid = 2\<rparr>)"
proof -
  let ?d = "\<lparr>docs = [\<lparr>doc_id = 0, name = ''Ann'', email = ''ann@x.com'', password = ''secret''\<rparr>,
              \<lparr>doc_id = 1, name = ''Bob'', email = ''bob@x.com'', password = ''hunter2''\<rparr>], next_oid = 2\<rparr>"
  have hex: "castObjectId ''00000000000000000000000a'' = Inr 10"
    by (simp add: castObjectId_def hex_digit_def)
  have bad: "castObjectId ''abc'' = Inl (CastError ''abc'')"
    by (simp add: castObjectId_def)
  from update_unknown_id [of "\<lparr>bearer = Some ''12345678'', route = PUT_user ''00000000000000000000000a'',
         body = Some [''name'' \<mapsto> ''Bobby'', ''email'' \<mapsto> ''bobby@x.com'', ''password'' \<mapsto> ''hunter3'']\<rparr>"
      "''00000000000000000000000a''" ?d 10] hex
  have "handle ?d \<lparr>bearer = Some ''12345678'', route = PUT_user ''00000000000000000000000a'',
         body = Some [''name'' \<mapsto> ''Bobby'', ''email'' \<mapsto> ''bobby@x.com'', ''password'' \<mapsto> ''hunter3'']\<rparr> = (Inr Null, ?d)"
    by simp
  moreover from update_unknown_id [of "\<lparr>bearer = Some ''12345678'', route = PUT_user ''abc'',
         body = Some [''name'' \<mapsto> ''Bobby'', ''email'' \<mapsto> ''bobby@x.com'', ''password'' \<mapsto> ''hunter3'']\<rparr>"
      "''abc''" ?d] bad
  have "handle ?d \<lparr>bearer = Some ''12345678'', route = PUT_user ''abc'',
         body = Some [''name'' \<mapsto> ''Bobby'', ''email'' \<mapsto> ''bobby@x.com'', ''password'' \<mapsto> ''hunter3'']\<rparr> = (Inl (CastError ''abc''), ?d)"
    by simp
  moreover from update_unknown_id [of "\<lparr>bearer = Some ''12345678'', route = PUT_user ''00000000000000000000000a'',
         body = None\<rparr>"
      "''00000000000000000000000a''" ?d] hex
  have "handle ?d \<lparr>bearer = Some ''12345678'', route = PUT_user ''00000000000000000000000a'',
         body = None\<rparr> = (Inl TypeError, ?d)"
    by simp
  ultimately show ?thesis
    using hex by simp
qed

theorem update_unknown_id_counterexample:
  "docs empty_db = [] \<and>
   handle empty_db
      \<lparr>bearer = Some ''12345678'', route = PUT_user ''abc'',
         body = Some [''name'' \<mapsto> ''Bobby'', ''email'' \<mapsto> ''bobby@x.com'', ''password'' \<mapsto> ''hunter3'']\<rparr>
    = (Inl (CastError ''abc''), empty_db) \<and>
   fst (handle empty_db
      \<lparr>bearer = Some ''12345678'', route = PUT_user ''abc'',
         body = Some [''name'' \<mapsto> ''Bobby'', ''email'' \<mapsto> ''bobby@x.com'', ''password'' \<mapsto> ''hunter3'']\<rparr>) \<noteq> Inr Null"
  by (simp add: handle_PUT put_user_def findByIdAndUpdate_def castObjectId_def empty_db_def)

text \<open>
  C7. Deleting twice leaves the database in the state that deleting once leaves it in.
  A delete request with the secret for the identifier of a stored document is answered
  with \<open>User deleted\<close> and removes the documents with that identifier, which is exactly
  one document, all others staying in place; the same request on the resulting database
  is answered with \<open>User deleted\<close> again and changes nothing.
\<close>

theorem delete_idempotent:
  assumes "wf_db d" and "route req = DELETE_user idp"
  shows "snd (handle (snd (handle d req)) req) = snd (handle d req) \<and>
         (bearer req = Some ''12345678'' \<and> castObjectId idp = Inr i \<and> i \<in> doc_id ` set (docs d) \<longrightarrow>
            handle d req =
              (Inr (Text ''User deleted''), d\<lparr>docs := filter (\<lambda>u. doc_id u \<noteq> i) (docs d)\<rparr>) \<and>
            Suc (length (filter (\<lambda>u. doc_id u \<noteq> i) (docs d))) = length (docs d) \<and>
            handle (d\<lparr>docs := filter (\<lambda>u. doc_id u \<noteq> i) (docs d)\<rparr>) req =
              (Inr (Text ''User deleted''), d\<lparr>docs := filter (\<lambda>u. doc_id u \<noteq> i) (docs d)\<rparr>))"
proof -
  have del: "delete_user x idp =
      (Inr (Text ''User deleted''), x\<lparr>docs := filter (\<lambda>u. doc_id u \<noteq> j) (docs x)\<rparr>)"
    if "wf_db x" "castObjectId idp = Inr j" for x j
    using that by (rule delete_user_found)
  have twice: "snd (handle (snd (handle d req)) req) = snd (handle d req)"
  proof (cases "bearer req = Some ''12345678''")
    case False
    then have "handle x req = (Inl (Error ''Unauthorized''), x)" for x
      by (simp add: handle_def lifecycle_def onBeforeHandle_reject)
    then show ?thesis by simp
  next
    case True
    then have h: "handle x req = delete_user x idp" for x
      using assms(2) by (simp add: handle_DELETE)
    show ?thesis
    proof (cases "castObjectId idp")
      case (Inl e)
      then show ?thesis by (simp add: h delete_user_malformed)
    next
      case (Inr j)
      let ?d1 = "d\<lparr>docs := filter (\<lambda>u. doc_id u \<noteq> j) (docs d)\<rparr>"
      have "wf_db ?d1" using assms(1) by (rule wf_filter)
      then have "delete_user ?d1 idp =
          (Inr (Text ''User deleted''), ?d1\<lparr>docs := filter (\<lambda>u. doc_id u \<noteq> j) (docs ?d1)\<rparr>)"
        using Inr by (rule del)
      then show ?thesis
        using del [OF assms(1) Inr] by (simp add: h)
    qed
  qed
  have once: "handle d req =
        (Inr (Text ''User deleted''), d\<lparr>docs := filter (\<lambda>u. doc_id u \<noteq> i) (docs d)\<rparr>) \<and>
      Suc (length (filter (\<lambda>u. doc_id u \<noteq> i) (docs d))) = length (docs d) \<and>
      handle (d\<lparr>docs := filter (\<lambda>u. doc_id u \<noteq> i) (docs d)\<rparr>) req =
        (Inr (Text ''User deleted''), d\<lparr>docs := filter (\<lambda>u. doc_id u \<noteq> i) (docs d)\<rparr>)"
    if a: "bearer req = Some ''12345678''" and c: "castObjectId idp = Inr i"
      and m: "i \<in> doc_id ` set (docs d)"
  proof -
    let ?d1 = "d\<lparr>docs := filter (\<lambda>u. doc_id u \<noteq> i) (docs d)\<rparr>"
    have h: "handle x req = delete_user x idp" for x
      using a assms(2) by (simp add: handle_DELETE)
    have first: "handle d req = (Inr (Text ''User deleted''), ?d1)"
      using del [OF assms(1) c] by (simp add: h)
    have "wf_db ?d1" using assms(1) by (rule wf_filter)
    then have "delete_user ?d1 idp =
        (Inr (Text ''User deleted''), ?d1\<lparr>docs := filter (\<lambda>u. doc_id u \<noteq> i) (docs ?d1)\<rparr>)"
      using c by (rule del)
    then have second: "handle ?d1 req = (Inr (Text ''User deleted''), ?d1)"
      by (simp add: h)
    from assms(1) have "distinct (map doc_id (docs d))" by (simp add: wf_db_def)
    then have "Suc (length (filter (\<lambda>u. doc_id u \<noteq> i) (docs d))) = length (docs d)"
      using m by (rule length_filter_other_ids)
    with first second show ?thesis by simp
  qed
  from twice once show ?thesis by blast
qed

theorem delete_idempotent_witness:
  "handle \<lparr>docs = [\<lparr>doc_id = 0, name = ''Ann'', email = ''ann@x.com'', password = ''secret''\<rparr>,
              \<lparr>doc_id = 1, name = ''Bob'', email = ''bob@x.com'', password = ''hunter2''\<rparr>], next_oid = 2\<rparr>
      \<lparr>bearer = Some ''12345678'', route = DELETE_user ''000000000000000000000000'', body = None\<rparr>
    = (Inr (Text ''User deleted''),
       \<lparr>docs = [\<lparr>doc_id = 1, name = ''Bob'', email = ''bob@x.com'', password = ''hunter2''\<rparr>], next_oid = 2\<rparr>) \<and>
   handle \<lparr>docs = [\<lparr>doc_id = 1, name = ''Bob'', email = ''bob@x.com'', password = ''hunter2''\<rparr>], next_oid = 2\<rparr>
      \<lparr>bearer = Some ''12345678'', route = DELETE_user ''000000000000000000000000'', body = None\<rparr>
    = (Inr (Text ''User deleted''),
       \<lparr>docs = [\<lparr>doc_id = 1, name = ''Bob'', email = ''bob@x.com'', password = ''hunter2''\<rparr>], next_oid = 2\<rparr>)"
proof -
  let ?d = "\<lparr>docs = [\<lparr>doc_id = 0, name = ''Ann'', email = ''ann@x.com'', password = ''secret''\<rparr>,
              \<lparr>doc_id = 1, name = ''Bob'', email = ''bob@x.com'', password = ''hunter2''\<rparr>], next_oid = 2\<rparr>"
  let ?req = "\<lparr>bearer = Some ''12345678'', route = DELETE_user ''000000000000000000000000'', body = None\<rparr>"
  have wf: "wf_db ?d"
    by (simp add: wf_db_def)
  have hex: "castObjectId ''000000000000000000000000'' = Inr 0"
    by (simp add: castObjectId_def hex_digit_def)
  from delete_idempotent [of ?d ?req "''000000000000000000000000''" 0] wf hex
  show ?thesis
    by simp
qed

section \<open>What a create request depends on\<close>




section \<open>Start-up\<close>

text \<open>
  C8. When the connection attempt is rejected, the process logs the error and does nothing
  else: it never calls \<^verbatim>\<open>listen\<close>. Whenever it does listen, the connection attempt
  succeeded and the message of the successful connection was logged just before.
\<close>

theorem no_listen_without_connection:
  "bootstrap env (Rejected err) listen = [Log err] \<and>
   (\<forall>p. Listen p \<notin> set (bootstrap env (Rejected err) listen)) \<and>
   (Listen p \<in> set (bootstrap env connect listen) \<longrightarrow>
      connect = Fulfilled () \<and>
      (\<exists>rest. bootstrap env connect listen = Log ''Connected to MongoDB'' # Listen p # rest))"
  by (auto simp: bootstrap_def split: promise.splits sum.splits)

theorem no_listen_without_connection_witness:
  "bootstrap [''PORT'' \<mapsto> ''8080''] (Rejected ''ECONNREFUSED'') (Inr ()) = [Log ''ECONNREFUSED''] \<and>
   Listen (PortString ''8080'')
     \<in> set (bootstrap [''PORT'' \<mapsto> ''8080''] (Fulfilled ()) (Inr ())) \<and>
   bootstrap [''PORT'' \<mapsto> ''8080''] (Fulfilled ()) (Inr ()) =
     [Log ''Connected to MongoDB'', Listen (PortString ''8080''),
      Log ''Server is up and running on port 8080'']"
proof -
  have l: "Listen (PortString ''8080'')
      \<in> set (bootstrap [''PORT'' \<mapsto> ''8080''] (Fulfilled ()) (Inr ()))"
    by (simp add: bootstrap_def PORT_def)
  from no_listen_without_connection
    [of "[''PORT'' \<mapsto> ''8080'']" "''ECONNREFUSED''" "Inr ()" "PortString ''8080''" "Fulfilled ()"] l
  show ?thesis
    by (simp add: bootstrap_def PORT_def port_text_def)
qed

text \<open>
  C9, as amended. The port is the value of \<open>PORT\<close> when the variable is set to a non-empty
  string, and 4001 when it is unset or set to the empty string; it is the port the process
  listens on.
\<close>

theorem port_from_environment:
  "(env ''PORT'' = Some s \<and> s \<noteq> [] \<longrightarrow> PORT env = PortString s) \<and>
   (env ''PORT'' = None \<or> env ''PORT'' = Some [] \<longrightarrow> PORT env = PortNumber 4001) \<and>
   (Listen p \<in> set (bootstrap env connect listen) \<longrightarrow> p = PORT env)"
  by (auto simp: PORT_def bootstrap_def split: promise.splits sum.splits)

theorem port_from_environment_witness:
  "PORT [''PORT'' \<mapsto> ''8080''] = PortString ''8080'' \<and> PORT Map.empty = PortNumber 4001"
  using port_from_environment [of "[''PORT'' \<mapsto> ''8080'']" "''8080''"]
    port_from_environment [of Map.empty]
  by simp

theorem port_from_environment_counterexample:
  "[''PORT'' \<mapsto> ''''] ''PORT'' = Some '''' \<and>
   PORT [''PORT'' \<mapsto> ''''] = PortNumber 4001 \<and>
   PORT [''PORT'' \<mapsto> ''''] \<noteq> PortString ''''"
  by (simp add: PORT_def)

end
